theory Spec2Isabelle
  imports Complex_Main "HOL-Library.Sublist"
begin

section \<open>JavaScript values used by the storefront\<close>

text \<open>
  The storefront is three browser scripts: \<^verbatim>\<open>script.js\<close> (listing page: category
  filter and text search), \<^verbatim>\<open>detail.js\<close> (detail page: product lookup by the
  \<^verbatim>\<open>id\<close> query parameter, add to cart) and \<^verbatim>\<open>cart.js\<close> (cart page: totals, shipping
  tiers, removal). The embedding keeps one HOL definition per source function.

  Conventions of the embedding.
  \<^item> A JavaScript number is a \<open>number\<close>: \<open>NaN\<close>, the two infinities, or a finite value
    held as a rational (every double is one). The addition of two numbers rounds, so it
    is not computed here: it is a parameter of the embedding. \<^verbatim>\<open>parseInt\<close> and
    \<^verbatim>\<open>parseFloat\<close> give the exact value of the numeral they read, where the browser gives
    the nearest double.
  \<^item> A string is a \<open>string\<close> of 8-bit characters; case mapping and white space are
    those of ASCII.
  \<^item> \<^verbatim>\<open>undefined\<close>/\<^verbatim>\<open>null\<close> results are \<open>None\<close>; a thrown exception is \<open>Inl\<close> of an
    \<open>js_error\<close>, and every \<^verbatim>\<open>try/catch\<close> of the source is a \<open>case\<close> on it.
\<close>

datatype js_error = SyntaxError | TypeError | FetchError

datatype number = NaN | NegInf | Fin rat | PosInf

text \<open>The unary minus of a number, which is exact.\<close>

fun negate_number :: "number \<Rightarrow> number" where
  "negate_number (Fin a) = Fin (- a)"
| "negate_number PosInf = NegInf"
| "negate_number NegInf = PosInf"
| "negate_number NaN = NaN"

text \<open>Truthiness of a number: \<^verbatim>\<open>NaN\<close> and zero are falsy.\<close>

fun number_truthy :: "number \<Rightarrow> bool" where
  "number_truthy NaN = False"
| "number_truthy (Fin a) = (a \<noteq> 0)"
| "number_truthy _ = True"

text \<open>
  A loosely typed scalar field, as \<^verbatim>\<open>JSON.parse\<close> can deliver it for \<^verbatim>\<open>price\<close>: the code
  tests it with \<^verbatim>\<open>typeof\<close> and \<^verbatim>\<open>||\<close>.
\<close>

datatype scalar = Undefined | Null | Bool bool | Num number | Str string

fun truthy :: "scalar \<Rightarrow> bool" where
  "truthy Undefined = False"
| "truthy Null = False"
| "truthy (Bool b) = b"
| "truthy (Num n) = number_truthy n"
| "truthy (Str s) = (s \<noteq> [])"

subsection \<open>String built-ins\<close>

definition isWhiteSpace :: "char \<Rightarrow> bool" where
  "isWhiteSpace c = (c \<in> set [CHR 0x09, CHR 0x0A, CHR 0x0B, CHR 0x0C, CHR 0x0D, CHR '' ''])"

text \<open>\<^verbatim>\<open>String.prototype.trim\<close>.\<close>

definition trim :: "string \<Rightarrow> string" where
  "trim s = rev (dropWhile isWhiteSpace (rev (dropWhile isWhiteSpace s)))"

definition char_lower :: "char \<Rightarrow> char" where
  "char_lower c =
     (case map_of (zip ''ABCDEFGHIJKLMNOPQRSTUVWXYZ'' ''abcdefghijklmnopqrstuvwxyz'') c of
        Some l \<Rightarrow> l
      | None \<Rightarrow> c)"

text \<open>\<^verbatim>\<open>String.prototype.toLowerCase\<close>.\<close>

definition toLowerCase :: "string \<Rightarrow> string" where
  "toLowerCase s = map char_lower s"

text \<open>\<^verbatim>\<open>s.includes(q)\<close>: \<open>q\<close> occurs in \<open>s\<close> as a contiguous run.\<close>

fun str_includes :: "string \<Rightarrow> string \<Rightarrow> bool" where
  "str_includes [] q = (q = [])"
| "str_includes (c # cs) q = (prefix q (c # cs) \<or> str_includes cs q)"

text \<open>\<^verbatim>\<open>s.replace('$', '')\<close> with a string pattern: only the first occurrence goes.\<close>

definition replace_dollar :: "string \<Rightarrow> string" where
  "replace_dollar s = remove1 (CHR ''$'') s"

subsection \<open>Numeric parsing built-ins\<close>

text \<open>The value of a digit in radix up to 16; \<open>None\<close> for any other character.\<close>

definition digit_of :: "char \<Rightarrow> nat option" where
  "digit_of c =
     map_of (zip ''0123456789abcdef'' [0 ..< 16] @ zip ''ABCDEF'' [10 ..< 16]) c"

definition isRadixDigit :: "nat \<Rightarrow> char \<Rightarrow> bool" where
  "isRadixDigit R c = (case digit_of c of Some d \<Rightarrow> d < R | None \<Rightarrow> False)"

definition radix_value :: "nat \<Rightarrow> string \<Rightarrow> nat" where
  "radix_value R ds = foldl (\<lambda>acc c. R * acc + (case digit_of c of Some d \<Rightarrow> d | None \<Rightarrow> 0)) 0 ds"

text \<open>
  \<^verbatim>\<open>parseInt(s)\<close> with no radix: leading white space, a sign, an optional
  \<^verbatim>\<open>0x\<close> prefix, then the longest run of digits; \<open>None\<close> is \<^verbatim>\<open>NaN\<close>.
\<close>

definition parseInt :: "string \<Rightarrow> int option" where
  "parseInt str =
     (let s0 = dropWhile isWhiteSpace str;
          neg = (s0 \<noteq> [] \<and> hd s0 = CHR ''-'');
          s1 = (if s0 \<noteq> [] \<and> (hd s0 = CHR ''+'' \<or> hd s0 = CHR ''-'') then tl s0 else s0);
          hex = (prefix ''0x'' s1 \<or> prefix ''0X'' s1);
          s2 = (if hex then drop 2 s1 else s1);
          R = (if hex then 16 else 10);
          z = takeWhile (isRadixDigit R) s2
      in if z = [] then None
         else Some ((if neg then - 1 else 1) * int (radix_value R z)))"

text \<open>The optional exponent part of a decimal literal, as a power of ten.\<close>

definition exponentPart :: "string \<Rightarrow> int" where
  "exponentPart s =
     (if s \<noteq> [] \<and> (hd s = CHR ''e'' \<or> hd s = CHR ''E'') then
        (let r = tl s;
             neg = (r \<noteq> [] \<and> hd r = CHR ''-'');
             r1 = (if r \<noteq> [] \<and> (hd r = CHR ''+'' \<or> hd r = CHR ''-'') then tl r else r);
             ds = takeWhile (isRadixDigit 10) r1
         in if ds = [] then 0
            else (if neg then - 1 else 1) * int (radix_value 10 ds))
      else 0)"

definition scale10 :: "rat \<Rightarrow> int \<Rightarrow> rat" where
  "scale10 m e = (if 0 \<le> e then m * 10 ^ nat e else m / 10 ^ nat (- e))"

definition strUnsignedDecimalLiteral :: "string \<Rightarrow> number" where
  "strUnsignedDecimalLiteral s =
     (if prefix ''Infinity'' s then PosInf
      else
        (let ip = takeWhile (isRadixDigit 10) s;
             r1 = dropWhile (isRadixDigit 10) s
         in if r1 \<noteq> [] \<and> hd r1 = CHR ''.'' then
              (let fp = takeWhile (isRadixDigit 10) (tl r1);
                   r2 = dropWhile (isRadixDigit 10) (tl r1)
               in if ip = [] \<and> fp = [] then NaN
                  else Fin (scale10
                         (of_nat (radix_value 10 ip)
                            + of_nat (radix_value 10 fp) / 10 ^ length fp)
                         (exponentPart r2)))
            else if ip = [] then NaN
            else Fin (scale10 (of_nat (radix_value 10 ip)) (exponentPart r1))))"

text \<open>
  \<^verbatim>\<open>parseFloat(s)\<close>: leading white space, a sign, then the longest prefix that is a
  decimal literal; \<^verbatim>\<open>NaN\<close> when there is none.
\<close>

definition parseFloat :: "string \<Rightarrow> number" where
  "parseFloat str =
     (let s0 = dropWhile isWhiteSpace str
      in if s0 \<noteq> [] \<and> hd s0 = CHR ''-'' then negate_number (strUnsignedDecimalLiteral (tl s0))
         else if s0 \<noteq> [] \<and> hd s0 = CHR ''+'' then strUnsignedDecimalLiteral (tl s0)
         else strUnsignedDecimalLiteral s0)"

section \<open>Data model\<close>

text \<open>
  A cart line item is the object literal built in \<^verbatim>\<open>addToCart\<close>; a product of
  \<^verbatim>\<open>data.json\<close> has the same properties and \<^verbatim>\<open>details\<close> besides. The property
  \<^verbatim>\<open>id\<close> is written \<open>id'\<close> and \<^verbatim>\<open>total\<close> is written \<open>total'\<close>. \<^verbatim>\<open>summary\<close> and
  \<^verbatim>\<open>displayPrice\<close> may be absent (the code guards both), and \<^verbatim>\<open>price\<close> is a number or,
  as \<^verbatim>\<open>calculateCart\<close> allows, a string or a missing value.
\<close>

record CartLineItem =
  id' :: int
  name :: string
  brand :: string
  summary :: "string option"
  price :: scalar
  displayPrice :: "string option"
  images :: "string list"
  category :: string

record Product = CartLineItem +
  details :: string

text \<open>
  What \<^verbatim>\<open>JSON.parse\<close> can return for the text stored under the cart key: a scalar, some
  object that is not an array, or an array of line items.
\<close>

datatype jsv = Scalar scalar | Object | Array "CartLineItem list"

fun value_truthy :: "jsv \<Rightarrow> bool" where
  "value_truthy (Scalar v) = truthy v"
| "value_truthy Object = True"
| "value_truthy (Array xs) = True"

text \<open>
  The browser functions whose bodies are not part of the repository are parameters of the
  embedding: \<^verbatim>\<open>JSON.parse\<close> (which throws \<^verbatim>\<open>SyntaxError\<close>), \<^verbatim>\<open>JSON.stringify\<close> on a
  cart, the conversion of a number to a string, and the \<^verbatim>\<open>+\<close> of two numbers
  (floating-point addition: it rounds, and it is not associative).
\<close>

record platform =
  JSON_parse :: "string \<Rightarrow> js_error + jsv"
  JSON_stringify :: "CartLineItem list \<Rightarrow> string"
  Number_toString :: "number \<Rightarrow> string"
  Number_add :: "number \<Rightarrow> number \<Rightarrow> number"

text \<open>\<^verbatim>\<open>localStorage\<close>: string keys to string values.\<close>

type_synonym storage = "string \<rightharpoonup> string"

definition getItem :: "storage \<Rightarrow> string \<Rightarrow> string option" where
  "getItem ls k = ls k"

definition setItem :: "storage \<Rightarrow> string \<Rightarrow> string \<Rightarrow> storage" where
  "setItem ls k v = ls(k \<mapsto> v)"

text \<open>
  \<^verbatim>\<open>JSON.parse(localStorage.getItem('cart'))\<close>: a missing key gives \<^verbatim>\<open>null\<close>, which
  \<^verbatim>\<open>JSON.parse\<close> first converts to the string \<^verbatim>\<open>"null"\<close>.
\<close>

definition parse_item :: "platform \<Rightarrow> string option \<Rightarrow> js_error + jsv" where
  "parse_item pf v = JSON_parse pf (case v of None \<Rightarrow> ''null'' | Some s \<Rightarrow> s)"

text \<open>\<^verbatim>\<open>v || []\<close>.\<close>

definition or_empty :: "jsv \<Rightarrow> jsv" where
  "or_empty v = (if value_truthy v then v else Array [])"

text \<open>The string a template literal makes of a value.\<close>

fun ToString :: "platform \<Rightarrow> scalar \<Rightarrow> string" where
  "ToString pf Undefined = ''undefined''"
| "ToString pf Null = ''null''"
| "ToString pf (Bool b) = (if b then ''true'' else ''false'')"
| "ToString pf (Num n) = Number_toString pf n"
| "ToString pf (Str s) = s"

text \<open>\<^verbatim>\<open>Array.prototype.findIndex\<close>: the first position that satisfies \<open>P\<close>, or \<open>-1\<close>.\<close>

fun findIndex :: "('a \<Rightarrow> bool) \<Rightarrow> 'a list \<Rightarrow> int" where
  "findIndex P [] = - 1"
| "findIndex P (x # xs) =
     (if P x then 0 else (let i = findIndex P xs in if i = - 1 then - 1 else i + 1))"

text \<open>
  \<^verbatim>\<open>xs.splice(index, 1)\<close>, the array left behind: a negative start counts from the end,
  a start beyond the end removes nothing.
\<close>

definition splice1 :: "'a list \<Rightarrow> int \<Rightarrow> 'a list" where
  "splice1 xs index =
     (let len = int (length xs);
          start = (if index < 0 then max (len + index) 0 else min index len)
      in take (nat start) xs @ drop (nat start + 1) xs)"

datatype outcome = Added | AlreadyPresent | AddFailed | Removed string | IndexOutOfRange

section \<open>cart.js\<close>

record shipping_rates =
  BASE :: number
  ONE_ITEM :: number
  TWO_ITEMS :: number
  THREE_TO_FIVE :: number
  SIX_PLUS :: number

definition SHIPPING_RATES :: shipping_rates where
  "SHIPPING_RATES =
     \<lparr>BASE = Fin 0, ONE_ITEM = Fin 170, TWO_ITEMS = Fin 220,
      THREE_TO_FIVE = Fin 270, SIX_PLUS = Fin 350\<rparr>"

definition calculateShipping :: "int \<Rightarrow> number" where
  "calculateShipping itemCount =
     (if itemCount = 0 then BASE SHIPPING_RATES
      else if itemCount = 1 then ONE_ITEM SHIPPING_RATES
      else if itemCount = 2 then TWO_ITEMS SHIPPING_RATES
      else if itemCount \<ge> 3 \<and> itemCount \<le> 5 then THREE_TO_FIVE SHIPPING_RATES
      else if itemCount \<ge> 6 then SIX_PLUS SHIPPING_RATES
      else BASE SHIPPING_RATES)"

text \<open>
  \<^verbatim>\<open>(item.price || '0').toString()\<close> for a price that is not a number: a falsy price
  (\<^verbatim>\<open>undefined\<close>, \<^verbatim>\<open>null\<close>, \<^verbatim>\<open>false\<close>, the empty string) becomes \<^verbatim>\<open>'0'\<close>.
\<close>

fun price_text :: "scalar \<Rightarrow> string" where
  "price_text (Str s) = (if s = [] then ''0'' else s)"
| "price_text (Bool b) = (if b then ''true'' else ''0'')"
| "price_text _ = ''0''"

text \<open>
  The price of one item in \<^verbatim>\<open>calculateCart\<close>:
  \<^verbatim>\<open>typeof item.price === 'number' ? item.price :
     parseFloat((item.price || '0').toString().replace('$', '')) || 0\<close>.
\<close>

definition itemPrice :: "scalar \<Rightarrow> number" where
  "itemPrice p =
     (case p of
        Num n \<Rightarrow> n
      | _ \<Rightarrow>
          (let v = parseFloat (replace_dollar (price_text p))
           in if number_truthy v then v else Fin 0))"

record totals =
  subtotal :: number
  shipping :: number
  total' :: number

text \<open>
  \<^verbatim>\<open>calculateCart\<close>: the \<^verbatim>\<open>forEach\<close> loop adds each price to the running subtotal
  with \<^verbatim>\<open>+=\<close>, from the left, starting at 0.
\<close>

definition calculateCart :: "platform \<Rightarrow> CartLineItem list \<Rightarrow> totals" where
  "calculateCart pf cart =
     (let sub = foldl (\<lambda>acc item. Number_add pf acc (itemPrice (price item))) (Fin 0) cart;
          ship = calculateShipping (int (length cart))
      in \<lparr>subtotal = sub, shipping = ship, total' = Number_add pf sub ship\<rparr>)"

text \<open>
  \<^verbatim>\<open>loadCartFromStorage\<close>: a missing or empty stored string gives \<^verbatim>\<open>[]\<close>, and so does a
  text \<^verbatim>\<open>JSON.parse\<close> rejects (the \<^verbatim>\<open>catch\<close>); anything else is taken as parsed.
\<close>

definition loadCartFromStorage :: "platform \<Rightarrow> storage \<Rightarrow> jsv" where
  "loadCartFromStorage pf ls =
     (case getItem ls ''cart'' of
        None \<Rightarrow> Array []
      | Some cartData \<Rightarrow>
          if cartData = [] then Array []
          else (case JSON_parse pf cartData of
                  Inl e \<Rightarrow> Array []
                | Inr v \<Rightarrow> v))"

text \<open>
  \<^verbatim>\<open>localStorage.setItem('cart', JSON.stringify(cart))\<close>, the line that persists the cart
  in \<^verbatim>\<open>removeItemFromCart\<close> and in \<^verbatim>\<open>addToCart\<close>.
\<close>

definition persist :: "platform \<Rightarrow> CartLineItem list \<Rightarrow> storage \<Rightarrow> storage" where
  "persist pf cart ls = setItem ls ''cart'' (JSON_stringify pf cart)"

text \<open>
  The cart change of \<^verbatim>\<open>removeItemFromCart\<close> (guard, name, \<^verbatim>\<open>splice\<close>): the early
  \<^verbatim>\<open>return\<close> of the guard is the outcome \<open>IndexOutOfRange\<close>.
\<close>

definition cart_remove :: "CartLineItem list \<Rightarrow> int \<Rightarrow> CartLineItem list \<times> outcome" where
  "cart_remove cart index =
     (if index < 0 \<or> index \<ge> int (length cart) then (cart, IndexOutOfRange)
      else
        (let itemName = name (cart ! nat index)
         in (splice1 cart index, Removed itemName)))"

text \<open>The state of the cart page: the global \<^verbatim>\<open>cart\<close> (here \<open>cart_global\<close>), the three totals, the storage.\<close>

record cart_page =
  cart_global :: "CartLineItem list"
  summary_totals :: totals
  localStorage :: storage

definition removeItemFromCart :: "platform \<Rightarrow> int \<Rightarrow> cart_page \<Rightarrow> cart_page \<times> outcome" where
  "removeItemFromCart pf index st =
     (case cart_remove (cart_global st) index of
        (cart', Removed itemName) \<Rightarrow>
          (st\<lparr>cart_global := cart',
              localStorage := persist pf cart' (localStorage st),
              summary_totals := calculateCart pf cart'\<rparr>,
           Removed itemName)
      | (cart', out) \<Rightarrow> (st, out))"

section \<open>detail.js\<close>

text \<open>
  \<^verbatim>\<open>getProductIdFromURL\<close>, applied to what \<^verbatim>\<open>urlParams.get('id')\<close> returns (\<open>None\<close> when
  the parameter is absent); \<open>None\<close> is the \<^verbatim>\<open>null\<close> it returns.
\<close>

definition getProductIdFromURL :: "string option \<Rightarrow> int option" where
  "getProductIdFromURL productId =
     (case productId of
        None \<Rightarrow> None
      | Some s \<Rightarrow>
          if s = [] then None
          else (case parseInt s of
                  None \<Rightarrow> None
                | Some i \<Rightarrow> if i \<le> 0 then None else Some i))"

datatype view = NotFound | Detail Product

text \<open>
  \<^verbatim>\<open>loadProductDetails\<close>, applied to the outcome of fetching and decoding
  \<^verbatim>\<open>data.json\<close>: a failure there is thrown inside the \<^verbatim>\<open>try\<close> and caught.
\<close>

definition loadProductDetails :: "js_error + Product list \<Rightarrow> int \<Rightarrow> view" where
  "loadProductDetails fetched productId =
     (case fetched of
        Inl e \<Rightarrow> NotFound
      | Inr products \<Rightarrow>
          (case find (\<lambda>p. id' p = productId) products of
             None \<Rightarrow> NotFound
           | Some product \<Rightarrow> Detail product))"

text \<open>The \<^verbatim>\<open>DOMContentLoaded\<close> handler of the detail page.\<close>

definition detail_page :: "js_error + Product list \<Rightarrow> string option \<Rightarrow> view" where
  "detail_page fetched query =
     (case getProductIdFromURL query of
        None \<Rightarrow> NotFound
      | Some productId \<Rightarrow>
          if productId = 0 then NotFound else loadProductDetails fetched productId)"

text \<open>The object literal \<^verbatim>\<open>cartProduct\<close> of \<^verbatim>\<open>addToCart\<close>.\<close>

definition cartProduct :: "platform \<Rightarrow> Product \<Rightarrow> CartLineItem" where
  "cartProduct pf product =
     \<lparr>id' = id' product,
      name = name product,
      brand = brand product,
      summary = summary product,
      price = price product,
      displayPrice =
        Some (case displayPrice product of
                None \<Rightarrow> ''$'' @ ToString pf (price product)
              | Some d \<Rightarrow> if d = [] then ''$'' @ ToString pf (price product) else d),
      images = images product,
      category = category product\<rparr>"

text \<open>
  The cart change of \<^verbatim>\<open>addToCart\<close>: the duplicate check with \<^verbatim>\<open>findIndex\<close>, then
  \<^verbatim>\<open>push\<close>.
\<close>

definition cart_add :: "platform \<Rightarrow> CartLineItem list \<Rightarrow> Product \<Rightarrow> CartLineItem list \<times> outcome" where
  "cart_add pf cart product =
     (let existingIndex = findIndex (\<lambda>item. id' item = id' product) cart
      in if existingIndex \<noteq> - 1 then (cart, AlreadyPresent)
         else (cart @ [cartProduct pf product], Added))"

text \<open>
  \<^verbatim>\<open>addToCart\<close> on the storage. A \<^verbatim>\<open>SyntaxError\<close> of \<^verbatim>\<open>JSON.parse\<close>, and the
  \<^verbatim>\<open>TypeError\<close> of calling \<^verbatim>\<open>findIndex\<close> on a parsed value that is not an array, end in
  the \<^verbatim>\<open>catch\<close>: nothing is stored.
\<close>

definition addToCart :: "platform \<Rightarrow> Product \<Rightarrow> storage \<Rightarrow> storage \<times> outcome" where
  "addToCart pf product ls =
     (case parse_item pf (getItem ls ''cart'') of
        Inl e \<Rightarrow> (ls, AddFailed)
      | Inr v \<Rightarrow>
          (case or_empty v of
             Array cart \<Rightarrow>
               (case cart_add pf cart product of
                  (cart', Added) \<Rightarrow> (persist pf cart' ls, Added)
                | (cart', out) \<Rightarrow> (ls, out))
           | _ \<Rightarrow> (ls, AddFailed)))"

section \<open>script.js\<close>

text \<open>
  The category filter, written twice in the source (\<^verbatim>\<open>handleCategoryFilter\<close> and the
  dropdown handler of \<^verbatim>\<open>setupCategories\<close>):
  \<^verbatim>\<open>category === 'All' ? allProducts : allProducts.filter(p => p.category === category)\<close>.
\<close>

definition filterByCategory :: "Product list \<Rightarrow> string \<Rightarrow> Product list" where
  "filterByCategory allProducts c =
     (if c = ''All'' then allProducts else filter (\<lambda>p. category p = c) allProducts)"

text \<open>\<^verbatim>\<open>filterProducts(query)\<close>: the list it shows and stores in \<^verbatim>\<open>currentProducts\<close>.\<close>

definition filterProducts :: "Product list \<Rightarrow> string \<Rightarrow> Product list" where
  "filterProducts allProducts query =
     (if query = [] then allProducts
      else filter
        (\<lambda>product.
           str_includes (toLowerCase (name product)) query \<or>
           str_includes (toLowerCase (brand product)) query \<or>
           str_includes (toLowerCase (category product)) query \<or>
           (case summary product of
              None \<Rightarrow> False
            | Some s \<Rightarrow> s \<noteq> [] \<and> str_includes (toLowerCase s) query))
        allProducts)"

text \<open>
  \<^verbatim>\<open>handleSearch\<close>, once the debounce timer fires, on the text of the search box:
  \<^verbatim>\<open>filterProducts(e.target.value.toLowerCase().trim())\<close>.
\<close>

definition handleSearch :: "Product list \<Rightarrow> string \<Rightarrow> Product list" where
  "handleSearch allProducts v = filterProducts allProducts (trim (toLowerCase v))"

text \<open>
  \<^verbatim>\<open>window.getCart\<close>: \<^verbatim>\<open>JSON.parse(localStorage.getItem('cart')) || []\<close>, with no
  \<^verbatim>\<open>try\<close> around it.
\<close>

definition getCart :: "platform \<Rightarrow> storage \<Rightarrow> js_error + jsv" where
  "getCart pf ls =
     (case parse_item pf (getItem ls ''cart'') of
        Inl e \<Rightarrow> Inl e
      | Inr v \<Rightarrow> Inr (or_empty v))"

section \<open>What JSON keeps of a cart\<close>

text \<open>
  \<^verbatim>\<open>JSON.stringify\<close> writes the text of a JSON document and \<^verbatim>\<open>JSON.parse\<close> reads one.
  The grammar of the text is the browser's affair; which document stands for a cart, and
  which value a document is read as, is stated here.
\<close>

datatype json =
    JNull
  | JBool bool
  | JNumber rat
  | JString string
  | JArray "json list"
  | JObject "(string \<times> json) list"

text \<open>
  The document of a property value; \<open>None\<close> when the property is left out. An
  \<^verbatim>\<open>undefined\<close> value is left out, and a number that is not finite is written
  \<^verbatim>\<open>null\<close>.
\<close>

fun json_of_scalar :: "scalar \<Rightarrow> json option" where
  "json_of_scalar Undefined = None"
| "json_of_scalar Null = Some JNull"
| "json_of_scalar (Bool b) = Some (JBool b)"
| "json_of_scalar (Num (Fin r)) = Some (JNumber r)"
| "json_of_scalar (Num n) = Some JNull"
| "json_of_scalar (Str s) = Some (JString s)"

definition property :: "string \<Rightarrow> json option \<Rightarrow> (string \<times> json) list" where
  "property k v = (case v of None \<Rightarrow> [] | Some d \<Rightarrow> [(k, d)])"

text \<open>The document of a line item: its properties in the order \<^verbatim>\<open>addToCart\<close> writes them.\<close>

definition json_of_item :: "CartLineItem \<Rightarrow> json" where
  "json_of_item item =
     JObject
       ([(''id'', JNumber (of_int (id' item))),
         (''name'', JString (name item)),
         (''brand'', JString (brand item))]
        @ property ''summary'' (map_option JString (summary item))
        @ property ''price'' (json_of_scalar (price item))
        @ property ''displayPrice'' (map_option JString (displayPrice item))
        @ [(''images'', JArray (map JString (images item))),
           (''category'', JString (category item))])"

definition json_of_cart :: "CartLineItem list \<Rightarrow> json" where
  "json_of_cart cart = JArray (map json_of_item cart)"

text \<open>Reading a document; \<open>None\<close> for a document that holds no value of the expected kind.\<close>

fun scalar_of_json :: "json \<Rightarrow> scalar option" where
  "scalar_of_json JNull = Some Null"
| "scalar_of_json (JBool b) = Some (Bool b)"
| "scalar_of_json (JNumber r) = Some (Num (Fin r))"
| "scalar_of_json (JString s) = Some (Str s)"
| "scalar_of_json _ = None"

fun string_of_json :: "json \<Rightarrow> string option" where
  "string_of_json (JString s) = Some s"
| "string_of_json _ = None"

fun int_of_json :: "json \<Rightarrow> int option" where
  "int_of_json (JNumber r) = (if r = of_int \<lfloor>r\<rfloor> then Some \<lfloor>r\<rfloor> else None)"
| "int_of_json _ = None"

fun strings_of_json :: "json \<Rightarrow> string list option" where
  "strings_of_json (JArray ds) = those (map string_of_json ds)"
| "strings_of_json _ = None"

text \<open>
  A property that may be missing: \<open>Some None\<close> when it is, \<open>None\<close> when it is there with
  a value of another kind.
\<close>

definition optional :: "(json \<Rightarrow> 'a option) \<Rightarrow> json option \<Rightarrow> 'a option option" where
  "optional f v = (case v of None \<Rightarrow> Some None | Some d \<Rightarrow> map_option Some (f d))"

text \<open>
  The line item an object is read as, when its properties have the types of the data
  model; of a repeated key the last one counts.
\<close>

definition item_of_json :: "json \<Rightarrow> CartLineItem option" where
  "item_of_json d =
     (case d of
        JObject ps \<Rightarrow>
          (let m = map_of (rev ps) in
           Option.bind (Option.bind (m ''id'') int_of_json) (\<lambda>i.
           Option.bind (Option.bind (m ''name'') string_of_json) (\<lambda>n.
           Option.bind (Option.bind (m ''brand'') string_of_json) (\<lambda>b.
           Option.bind (optional string_of_json (m ''summary'')) (\<lambda>s.
           Option.bind (case m ''price'' of None \<Rightarrow> Some Undefined | Some v \<Rightarrow> scalar_of_json v) (\<lambda>p.
           Option.bind (optional string_of_json (m ''displayPrice'')) (\<lambda>dp.
           Option.bind (Option.bind (m ''images'') strings_of_json) (\<lambda>im.
           Option.bind (Option.bind (m ''category'') string_of_json) (\<lambda>c.
             Some \<lparr>id' = i, name = n, brand = b, summary = s, price = p,
                   displayPrice = dp, images = im, category = c\<rparr>)))))))))
      | _ \<Rightarrow> None)"

text \<open>
  The value \<^verbatim>\<open>JSON.parse\<close> returns for a document, within the values of the embedding:
  \<open>None\<close> for an array that is not an array of line items.
\<close>

definition jsv_of_json :: "json \<Rightarrow> jsv option" where
  "jsv_of_json d =
     (case d of
        JArray ds \<Rightarrow> map_option Array (those (map item_of_json ds))
      | JObject ps \<Rightarrow> Some Object
      | _ \<Rightarrow> map_option Scalar (scalar_of_json d))"

text \<open>
  The browser's JSON functions at a cart: the text \<^verbatim>\<open>JSON.stringify\<close> writes for the cart
  is a text of the cart's document, hence not empty, and \<^verbatim>\<open>JSON.parse\<close> reads it as that
  document is read.
\<close>

definition json_at :: "platform \<Rightarrow> CartLineItem list \<Rightarrow> bool" where
  "json_at pf cart \<longleftrightarrow>
     JSON_stringify pf cart \<noteq> [] \<and>
     map_option Inr (jsv_of_json (json_of_cart cart)) =
       Some (JSON_parse pf (JSON_stringify pf cart))"

text \<open>What is left of a line item after it was written and read: a price that is not a
  finite number has become \<^verbatim>\<open>null\<close>.\<close>

fun price_kept :: "scalar \<Rightarrow> scalar" where
  "price_kept (Num (Fin r)) = Num (Fin r)"
| "price_kept (Num n) = Null"
| "price_kept p = p"

definition item_kept :: "CartLineItem \<Rightarrow> CartLineItem" where
  "item_kept item = item\<lparr>price := price_kept (price item)\<rparr>"


section \<open>Sequences of cart operations\<close>

text \<open>
  A cart reachable from the empty cart is the result of a list of operations, each the
  cart change of \<^verbatim>\<open>addToCart\<close> or of \<^verbatim>\<open>removeItemFromCart\<close>.
\<close>

datatype cart_op = Add Product | Remove int

fun apply_op :: "platform \<Rightarrow> CartLineItem list \<Rightarrow> cart_op \<Rightarrow> CartLineItem list" where
  "apply_op pf cart (Add product) = fst (cart_add pf cart product)"
| "apply_op pf cart (Remove index) = fst (cart_remove cart index)"

definition run_ops :: "platform \<Rightarrow> cart_op list \<Rightarrow> CartLineItem list" where
  "run_ops pf ops = foldl (apply_op pf) [] ops"

section \<open>The specification's wording, for comparison\<close>

text \<open>
  The specification's price coercion, word for word: the value itself when numeric,
  otherwise the decimal parse of the string with a leading \<^verbatim>\<open>$\<close> stripped, an unparsable
  value counting 0.
\<close>

definition strip_leading_dollar :: "string \<Rightarrow> string" where
  "strip_leading_dollar s = (if s \<noteq> [] \<and> hd s = CHR ''$'' then tl s else s)"

definition spec_itemPrice :: "scalar \<Rightarrow> number" where
  "spec_itemPrice p =
     (case p of
        Num n \<Rightarrow> n
      | Str s \<Rightarrow>
          (let v = parseFloat (strip_leading_dollar s)
           in if v = NaN then Fin 0 else v)
      | _ \<Rightarrow> Fin 0)"

text \<open>
  The sum of a list of numbers as a loop computes it: from 0, adding one number after the
  other with \<^verbatim>\<open>+\<close>.
\<close>

definition running_sum :: "platform \<Rightarrow> number list \<Rightarrow> number" where
  "running_sum pf ns = foldl (Number_add pf) (Fin 0) ns"

definition spec_subtotal :: "platform \<Rightarrow> CartLineItem list \<Rightarrow> number" where
  "spec_subtotal pf cart = running_sum pf (map (\<lambda>item. spec_itemPrice (price item)) cart)"

text \<open>
  The specification's search, word for word: the query itself occurs, case-insensitively,
  in the name, the brand, the category or, when present, the summary; an empty or
  whitespace-only query returns the input.
\<close>

definition occurs_ci :: "string \<Rightarrow> string \<Rightarrow> bool" where
  "occurs_ci q s = str_includes (toLowerCase s) (toLowerCase q)"

definition matches :: "string \<Rightarrow> Product \<Rightarrow> bool" where
  "matches q p =
     (occurs_ci q (name p) \<or> occurs_ci q (brand p) \<or> occurs_ci q (category p) \<or>
      (case summary p of None \<Rightarrow> False | Some s \<Rightarrow> occurs_ci q s))"

definition spec_search :: "Product list \<Rightarrow> string \<Rightarrow> Product list" where
  "spec_search P q = (if list_all isWhiteSpace q then P else filter (matches q) P)"

text \<open>
  The specification's navigation contract, word for word: the parameter is a numeric
  identifier; an absent, non-numeric or non-positive value, or an id with no matching
  product, gives the not-found view. A value is numeric when the whole of it is a decimal
  numeral, with or without a sign.
\<close>

definition numeric_text :: "string \<Rightarrow> bool" where
  "numeric_text s =
     (let t = (if s \<noteq> [] \<and> (hd s = CHR ''+'' \<or> hd s = CHR ''-'') then tl s else s)
      in t \<noteq> [] \<and> list_all (isRadixDigit 10) t)"

definition spec_detail_page :: "js_error + Product list \<Rightarrow> string option \<Rightarrow> view" where
  "spec_detail_page fetched query =
     (case query of
        None \<Rightarrow> NotFound
      | Some s \<Rightarrow>
          if \<not> numeric_text s then NotFound
          else (case parseInt s of
                  None \<Rightarrow> NotFound
                | Some i \<Rightarrow> if i \<le> 0 then NotFound else loadProductDetails fetched i))"

section \<open>Example data\<close>

text \<open>
  A two-product catalogue, a cart page holding both products, and a finite fragment of the
  browser's functions: the listed texts parse to the listed values, the listed carts and
  numbers print as listed, the listed sums are what \<^verbatim>\<open>+\<close> gives, and 0 added to a number
  gives that number; the one other text parsed below, \<^verbatim>\<open>{oops\<close>, is one that
  \<^verbatim>\<open>JSON.parse\<close> rejects, and no other cart, number or sum is used.
\<close>

definition alpha7 :: Product where
  "alpha7 =
     \<lparr>id' = 1, name = ''Alpha 7 IV'', brand = ''Sony'', summary = Some ''Full-frame mirrorless'',
      price = Num (Fin 2498), displayPrice = Some ''$2,498'', images = [''img/a7.jpg''],
      category = ''Cameras'', details = ''33 MP sensor''\<rparr>"

definition rf50 :: Product where
  "rf50 =
     \<lparr>id' = 2, name = ''RF 50mm F1.8'', brand = ''Canon'', summary = None,
      price = Num (Fin 199), displayPrice = None, images = [''img/rf50.jpg''],
      category = ''Camera Lenses'', details = ''Standard prime''\<rparr>"

definition alpha7_item :: CartLineItem where
  "alpha7_item =
     \<lparr>id' = 1, name = ''Alpha 7 IV'', brand = ''Sony'', summary = Some ''Full-frame mirrorless'',
      price = Num (Fin 2498), displayPrice = Some ''$2,498'', images = [''img/a7.jpg''],
      category = ''Cameras''\<rparr>"

definition rf50_item :: CartLineItem where
  "rf50_item =
     \<lparr>id' = 2, name = ''RF 50mm F1.8'', brand = ''Canon'', summary = None,
      price = Num (Fin 199), displayPrice = Some ''$199'', images = [''img/rf50.jpg''],
      category = ''Camera Lenses''\<rparr>"

definition alpha7_text :: string where
  \<open>alpha7_text =
     ''[{"id":1,"name":"Alpha 7 IV","brand":"Sony","summary":"Full-frame mirrorless","price":2498,"displayPrice":"$2,498","images":["img/a7.jpg"],"category":"Cameras"}]''\<close>

definition rf50_text :: string where
  \<open>rf50_text =
     ''[{"id":2,"name":"RF 50mm F1.8","brand":"Canon","price":199,"displayPrice":"$199","images":["img/rf50.jpg"],"category":"Camera Lenses"}]''\<close>

text \<open>The first item with an infinite price, and the text written for it.\<close>

definition alpha7_infinite :: CartLineItem where
  "alpha7_infinite = alpha7_item\<lparr>price := Num PosInf\<rparr>"

definition alpha7_null_text :: string where
  \<open>alpha7_null_text =
     ''[{"id":1,"name":"Alpha 7 IV","brand":"Sony","summary":"Full-frame mirrorless","price":null,"displayPrice":"$2,498","images":["img/a7.jpg"],"category":"Cameras"}]''\<close>

definition json_texts :: "(string \<times> jsv) list" where
  "json_texts =
     [(''null'', Scalar Null),
      (''[]'', Array []),
      (alpha7_text, Array [alpha7_item]),
      (rf50_text, Array [rf50_item]),
      (alpha7_null_text, Array [alpha7_item\<lparr>price := Null\<rparr>])]"

definition cart_texts :: "(CartLineItem list \<times> string) list" where
  "cart_texts =
     [([], ''[]''),
      ([alpha7_item], alpha7_text),
      ([rf50_item], rf50_text),
      ([alpha7_infinite], alpha7_null_text)]"

definition number_texts :: "(number \<times> string) list" where
  "number_texts = [(Fin 199, ''199''), (Fin 2498, ''2498'')]"

text \<open>Sums of the example: all exact, so the rounding of \<^verbatim>\<open>+\<close> does not show in them.\<close>

definition number_sums :: "((number \<times> number) \<times> number) list" where
  "number_sums =
     [((Fin 2498, Fin 170), Fin 2668),
      ((Fin 2498, Fin (25 / 2)), Fin (5021 / 2)),
      ((Fin 2498, Fin 199), Fin 2697),
      ((Fin 2697, Fin 220), Fin 2917)]"

definition example_platform :: platform where
  "example_platform =
     \<lparr>JSON_parse = (\<lambda>s. case map_of json_texts s of Some v \<Rightarrow> Inr v | None \<Rightarrow> Inl SyntaxError),
      JSON_stringify = (\<lambda>c. case map_of cart_texts c of Some t \<Rightarrow> t | None \<Rightarrow> ''[]''),
      Number_toString = (\<lambda>n. case map_of number_texts n of Some t \<Rightarrow> t | None \<Rightarrow> ''NaN''),
      Number_add =
        (\<lambda>a b. if a = Fin 0 then b else if b = Fin 0 then a
               else (case map_of number_sums (a, b) of Some c \<Rightarrow> c | None \<Rightarrow> NaN))\<rparr>"

definition example_page :: cart_page where
  "example_page =
     \<lparr>cart_global = [alpha7_item, rf50_item],
      summary_totals = calculateCart example_platform [alpha7_item, rf50_item],
      localStorage = Map.empty\<rparr>"

section \<open>Facts about the built-ins\<close>

lemma findIndex_ge: "- 1 \<le> findIndex P xs"
  by (induction xs) (auto simp: Let_def)

lemma findIndex_none: "findIndex P xs = - 1 \<longleftrightarrow> (\<forall>x \<in> set xs. \<not> P x)"
proof (induction xs)
  case Nil
  show ?case by simp
next
  case (Cons x xs)
  have "findIndex P xs + 1 \<noteq> - 1"
    using findIndex_ge [of P xs] by arith
  with Cons show ?case by (auto simp: Let_def)
qed

lemma str_includes_sublist: "str_includes s q \<longleftrightarrow> sublist q s"
  by (induction s) (auto simp: sublist_Cons_right)

lemma splice1_valid:
  "0 \<le> index \<Longrightarrow> index < int (length xs) \<Longrightarrow>
   splice1 xs index = take (nat index) xs @ drop (Suc (nat index)) xs"
  by (simp add: splice1_def Let_def min_def)

lemma char_lower_white: "isWhiteSpace (char_lower c) = isWhiteSpace c"
  by (auto simp: isWhiteSpace_def char_lower_def split: option.splits if_splits)

lemma all_dropWhile: "(\<forall>x \<in> set (dropWhile P s). P x) \<longleftrightarrow> (\<forall>x \<in> set s. P x)"
  by (induction s) auto

lemma dropWhile_white_lower:
  "dropWhile isWhiteSpace (map char_lower s) = map char_lower (dropWhile isWhiteSpace s)"
  by (induction s) (simp_all add: char_lower_white)

text \<open>Lower-casing and trimming commute; a string trims to nothing iff it is all white space.\<close>

lemma trim_toLowerCase: "trim (toLowerCase s) = toLowerCase (trim s)"
  by (simp add: trim_def toLowerCase_def dropWhile_white_lower rev_map)

lemma trim_empty: "trim s = [] \<longleftrightarrow> list_all isWhiteSpace s"
  by (simp add: trim_def list_all_iff dropWhile_eq_Nil_conv all_dropWhile)

lemma toLowerCase_empty: "toLowerCase s = [] \<longleftrightarrow> s = []"
  by (simp add: toLowerCase_def)

lemma distinct_take_drop:
  "distinct (map f xs) \<Longrightarrow> distinct (map f (take n xs @ drop (Suc n) xs))"
proof -
  assume d: "distinct (map f xs)"
  have "map f xs = map f (take n xs) @ map f (drop n xs)"
    by (simp flip: map_append)
  with d have a: "distinct (map f (take n xs))" "distinct (map f (drop n xs))"
    and b: "set (map f (take n xs)) \<inter> set (map f (drop n xs)) = {}"
    by (metis distinct_append)+
  have "set (drop (Suc n) xs) \<subseteq> set (drop n xs)"
    by (metis drop_Suc set_drop_subset tl_drop drop_drop Suc_eq_plus1 add.commute)
  moreover have "distinct (map f (drop (Suc n) xs))"
    using d by (simp flip: drop_map)
  ultimately show ?thesis
    using a b by auto
qed

section \<open>The example data\<close>

lemma cartProduct_alpha7: "cartProduct example_platform alpha7 = alpha7_item"
  by code_simp

lemma cartProduct_rf50: "cartProduct example_platform rf50 = rf50_item"
  by code_simp

section \<open>Cart totals\<close>

text \<open>
  Claim C1. For every cart, the shipping charge computed by \<^verbatim>\<open>calculateCart\<close> depends on
  the number of items alone, not on their prices: it is 0 for an empty cart, 170 for one
  item, 220 for two, 270 for three to five, and 350 for six or more.
\<close>

theorem shipping_tiers:
  "shipping (calculateCart pf cart) =
     (if length cart = 0 then Fin 0
      else if length cart = 1 then Fin 170
      else if length cart = 2 then Fin 220
      else if length cart \<le> 5 then Fin 270
      else Fin 350)"
proof -
  have "calculateShipping (int n) =
     (if n = 0 then Fin 0 else if n = 1 then Fin 170 else if n = 2 then Fin 220
      else if n \<le> 5 then Fin 270 else Fin 350)" for n
    by (auto simp: calculateShipping_def SHIPPING_RATES_def)
  then show ?thesis
    by (simp add: calculateCart_def Let_def)
qed

text \<open>Carts of 0, 1, 2, 3, 5 and 6 items, whatever the items are.\<close>

theorem shipping_tiers_witness:
  "shipping (calculateCart example_platform []) = Fin 0 \<and>
   shipping (calculateCart example_platform [rf50_item]) = Fin 170 \<and>
   shipping (calculateCart example_platform [alpha7_item, rf50_item]) = Fin 220 \<and>
   shipping (calculateCart example_platform (replicate 3 alpha7_item)) = Fin 270 \<and>
   shipping (calculateCart example_platform (replicate 5 rf50_item)) = Fin 270 \<and>
   shipping (calculateCart example_platform (replicate 6 alpha7_item)) = Fin 350"
  using shipping_tiers [of example_platform "[]"]
    shipping_tiers [of example_platform "[rf50_item]"]
    shipping_tiers [of example_platform "[alpha7_item, rf50_item]"]
    shipping_tiers [of example_platform "replicate 3 alpha7_item"]
    shipping_tiers [of example_platform "replicate 5 rf50_item"]
    shipping_tiers [of example_platform "replicate 6 alpha7_item"]
  by simp

lemma itemPrice_Str:
  "itemPrice (Str s) =
     (let v = parseFloat (remove1 (CHR ''$'') (if s = [] then ''0'' else s))
      in if v = NaN \<or> v = Fin 0 then Fin 0 else v)"
proof -
  have t: "number_truthy v \<longleftrightarrow> \<not> (v = NaN \<or> v = Fin 0)" for v
    by (cases v) simp_all
  show ?thesis
    by (simp add: itemPrice_def replace_dollar_def Let_def t)
qed

text \<open>
  Claim C2, as the code has it. For every cart, the subtotal is the sum of the coerced
  prices of the line items, added up from the left, starting at 0, with the \<^verbatim>\<open>+\<close> of
  JavaScript numbers, and the total is the subtotal plus the shipping. The coerced price
  is the value itself when the price is a number; for a string it is the \<^verbatim>\<open>parseFloat\<close>
  of the string (of \<^verbatim>\<open>'0'\<close> for the empty string) with its first \<^verbatim>\<open>$\<close> removed, wherever
  that \<^verbatim>\<open>$\<close> stands, counting 0 when the parse gives \<^verbatim>\<open>NaN\<close>; a missing, null or
  boolean price counts 0.
\<close>

theorem calculateCart_totals:
  "subtotal (calculateCart pf cart) =
     running_sum pf (map (\<lambda>item. itemPrice (price item)) cart) \<and>
   total' (calculateCart pf cart) =
     Number_add pf (subtotal (calculateCart pf cart)) (shipping (calculateCart pf cart)) \<and>
   itemPrice (Num n) = n \<and>
   itemPrice (Str s) =
     (let v = parseFloat (remove1 (CHR ''$'') (if s = [] then ''0'' else s))
      in if v = NaN \<or> v = Fin 0 then Fin 0 else v) \<and>
   itemPrice Undefined = Fin 0 \<and> itemPrice Null = Fin 0 \<and>
   itemPrice (Bool b) = Fin 0"
proof -
  have sub: "subtotal (calculateCart pf cart) =
      running_sum pf (map (\<lambda>item. itemPrice (price item)) cart)"
    by (simp add: calculateCart_def running_sum_def Let_def foldl_map)
  have tot: "total' (calculateCart pf cart) =
      Number_add pf (subtotal (calculateCart pf cart)) (shipping (calculateCart pf cart))"
    by (simp add: calculateCart_def Let_def)
  have num: "itemPrice (Num n) = n"
    by (simp add: itemPrice_def)
  have zero: "parseFloat ''0'' = Fin 0" by code_simp
  have tr: "parseFloat ''true'' = NaN" by code_simp
  have u: "itemPrice Undefined = Fin 0" "itemPrice Null = Fin 0"
    by (simp_all add: itemPrice_def replace_dollar_def zero)
  have b: "itemPrice (Bool b) = Fin 0"
    by (cases b) (simp_all add: itemPrice_def replace_dollar_def zero tr)
  show ?thesis
    using sub tot num itemPrice_Str u b by blast
qed

text \<open>
  One product in the cart: the subtotal is its price and the total adds 170. With a
  second item priced by the string \<^verbatim>\<open>"$12.50"\<close> the subtotal grows by 12.5.
\<close>

theorem calculateCart_totals_witness:
  "calculateCart example_platform [alpha7_item] =
     \<lparr>subtotal = Fin 2498, shipping = Fin 170, total' = Fin 2668\<rparr> \<and>
   subtotal (calculateCart example_platform
     [alpha7_item, rf50_item\<lparr>price := Str ''$12.50''\<rparr>]) = Fin (5021 / 2)"
proof -
  have s: "running_sum example_platform (map (\<lambda>item. itemPrice (price item)) [alpha7_item]) =
      Fin 2498"
    by code_simp
  have h: "shipping (calculateCart example_platform [alpha7_item]) = Fin 170"
    by code_simp
  have a: "Number_add example_platform (Fin 2498) (Fin 170) = Fin 2668"
    by code_simp
  have s2: "running_sum example_platform (map (\<lambda>item. itemPrice (price item))
      [alpha7_item, rf50_item\<lparr>price := Str ''$12.50''\<rparr>]) = Fin (5021 / 2)"
    by code_simp
  have eq: "t = \<lparr>subtotal = subtotal t, shipping = shipping t, total' = total' t\<rparr>"
    for t :: totals
    by simp
  show ?thesis
    using s h a s2 calculateCart_totals [of example_platform "[alpha7_item]"]
      calculateCart_totals [of example_platform
        "[alpha7_item, rf50_item\<lparr>price := Str ''$12.50''\<rparr>]"]
      eq [of "calculateCart example_platform [alpha7_item]"]
    by simp
qed

text \<open>
  Claim C2 as stated fails: a cart whose only item has the price \<^verbatim>\<open>"1$5"\<close> has the
  subtotal 15, since \<^verbatim>\<open>replace('$', '')\<close> removes the \<^verbatim>\<open>$\<close> in the middle, while the
  string has no leading \<^verbatim>\<open>$\<close> to strip and its decimal parse is 1.
\<close>

theorem subtotal_dollar_counterexample:
  "subtotal (calculateCart example_platform [alpha7_item\<lparr>price := Str ''1$5''\<rparr>]) \<noteq>
   spec_subtotal example_platform [alpha7_item\<lparr>price := Str ''1$5''\<rparr>]"
  by code_simp

section \<open>Cart changes\<close>

lemma cart_add_present:
  "id' product \<in> id' ` set cart \<Longrightarrow> cart_add pf cart product = (cart, AlreadyPresent)"
  by (auto simp: cart_add_def Let_def findIndex_none)

lemma cart_add_absent:
  "id' product \<notin> id' ` set cart \<Longrightarrow>
   cart_add pf cart product = (cart @ [cartProduct pf product], Added)"
proof -
  assume "id' product \<notin> id' ` set cart"
  then have "\<forall>item \<in> set cart. \<not> id' item = id' product" by force
  then have "findIndex (\<lambda>item. id' item = id' product) cart = - 1"
    by (simp only: findIndex_none)
  then show ?thesis by (simp add: cart_add_def Let_def)
qed

lemma cartProduct_id: "id' (cartProduct pf product) = id' product"
  by (simp add: cartProduct_def)

text \<open>Adding the same product again is refused and leaves the cart as it is.\<close>

lemma cart_add_twice:
  "cart_add pf (fst (cart_add pf cart product)) product =
     (fst (cart_add pf cart product), AlreadyPresent)"
proof (cases "id' product \<in> id' ` set cart")
  case True
  then show ?thesis by (simp add: cart_add_present)
next
  case False
  have "id' product \<in> id' ` set (cart @ [cartProduct pf product])"
    by (simp add: cartProduct_id)
  then show ?thesis
    using False by (simp add: cart_add_absent cart_add_present)
qed

text \<open>
  Claim C3. For every cart and every product: when the product's id is already in the
  cart, the cart change of \<^verbatim>\<open>addToCart\<close> returns the cart unchanged (so its length is
  unchanged) with the outcome \<open>AlreadyPresent\<close>; when it is not, it appends the line item
  projected from the product and returns \<open>Added\<close>. A second add of the same product is
  always \<open>AlreadyPresent\<close>. \<^verbatim>\<open>addToCart\<close> runs this change on the cart read from the
  storage and stores the result only when the outcome is \<open>Added\<close>. The projected item
  copies id, name, brand, summary, price, images and category, and the display price
  when the product has one; it has no details field.
\<close>

theorem addToCart_outcomes:
  "(id' product \<in> id' ` set cart \<longrightarrow>
      cart_add pf cart product = (cart, AlreadyPresent) \<and>
      length (fst (cart_add pf cart product)) = length cart) \<and>
   (id' product \<notin> id' ` set cart \<longrightarrow>
      cart_add pf cart product = (cart @ [cartProduct pf product], Added)) \<and>
   cart_add pf (fst (cart_add pf cart product)) product =
     (fst (cart_add pf cart product), AlreadyPresent) \<and>
   (parse_item pf (getItem ls ''cart'') = Inr v \<and> or_empty v = Array cart \<longrightarrow>
      addToCart pf product ls =
        (case cart_add pf cart product of
           (cart', Added) \<Rightarrow> (persist pf cart' ls, Added)
         | (cart', out) \<Rightarrow> (ls, out))) \<and>
   id' (cartProduct pf product) = id' product \<and>
   name (cartProduct pf product) = name product \<and>
   brand (cartProduct pf product) = brand product \<and>
   summary (cartProduct pf product) = summary product \<and>
   price (cartProduct pf product) = price product \<and>
   images (cartProduct pf product) = images product \<and>
   category (cartProduct pf product) = category product \<and>
   (displayPrice product = Some d \<and> d \<noteq> [] \<longrightarrow>
      displayPrice (cartProduct pf product) = Some d)"
proof -
  have a: "id' product \<in> id' ` set cart \<longrightarrow>
      cart_add pf cart product = (cart, AlreadyPresent) \<and>
      length (fst (cart_add pf cart product)) = length cart"
    by (simp add: cart_add_present)
  have b: "id' product \<notin> id' ` set cart \<longrightarrow>
      cart_add pf cart product = (cart @ [cartProduct pf product], Added)"
    by (simp add: cart_add_absent)
  have c: "parse_item pf (getItem ls ''cart'') = Inr v \<and> or_empty v = Array cart \<longrightarrow>
      addToCart pf product ls =
        (case cart_add pf cart product of
           (cart', Added) \<Rightarrow> (persist pf cart' ls, Added)
         | (cart', out) \<Rightarrow> (ls, out))"
    by (simp add: addToCart_def)
  have d: "id' (cartProduct pf product) = id' product \<and>
   name (cartProduct pf product) = name product \<and>
   brand (cartProduct pf product) = brand product \<and>
   summary (cartProduct pf product) = summary product \<and>
   price (cartProduct pf product) = price product \<and>
   images (cartProduct pf product) = images product \<and>
   category (cartProduct pf product) = category product \<and>
   (displayPrice product = Some d \<and> d \<noteq> [] \<longrightarrow>
      displayPrice (cartProduct pf product) = Some d)"
    by (simp add: cartProduct_def)
  show ?thesis
    using a b c d cart_add_twice [of pf cart product] by blast
qed

text \<open>
  The first product goes into the empty cart of an empty storage and is stored; added
  again, it is refused.
\<close>

theorem addToCart_outcomes_witness:
  "cart_add example_platform [] alpha7 = ([alpha7_item], Added) \<and>
   cart_add example_platform [alpha7_item] alpha7 = ([alpha7_item], AlreadyPresent) \<and>
   addToCart example_platform alpha7 Map.empty =
     (persist example_platform [alpha7_item] Map.empty, Added) \<and>
   displayPrice (cartProduct example_platform alpha7) = Some ''$2,498''"
proof -
  have 1: "id' alpha7 \<notin> id' ` set ([] :: CartLineItem list)" by simp
  have 2: "id' alpha7 \<in> id' ` set [alpha7_item]"
    by (simp add: alpha7_def alpha7_item_def)
  have 3: "parse_item example_platform (getItem Map.empty ''cart'') = Inr (Scalar Null)"
    by code_simp
  have 4: "or_empty (Scalar Null) = Array []"
    by (simp add: or_empty_def)
  have 5: "displayPrice alpha7 = Some ''$2,498''" "''$2,498'' \<noteq> []"
    by (simp_all add: alpha7_def)
  show ?thesis
    using 1 2 3 4 5
      addToCart_outcomes [of alpha7 "[]" example_platform Map.empty "Scalar Null" "''$2,498''"]
      addToCart_outcomes [of alpha7 "[alpha7_item]" example_platform
        Map.empty "Scalar Null" "''$2,498''"]
    by (simp add: cartProduct_alpha7)
qed

text \<open>
  Claim C7. For every cart page and every integer index: when the index is not a position
  of the cart (negative, or at least the length), \<^verbatim>\<open>removeItemFromCart\<close> changes nothing
  and ends with \<open>IndexOutOfRange\<close>; otherwise it removes exactly the item at that position,
  the others keeping their order, stores the new cart, recomputes the totals, and reports
  \<open>Removed\<close> with the name of the removed item.
\<close>

theorem removeItemFromCart_spec:
  "((index < 0 \<or> int (length (cart_global st)) \<le> index) \<longrightarrow>
      removeItemFromCart pf index st = (st, IndexOutOfRange)) \<and>
   (0 \<le> index \<and> index < int (length (cart_global st)) \<longrightarrow>
      snd (removeItemFromCart pf index st) = Removed (name (cart_global st ! nat index)) \<and>
      cart_global (fst (removeItemFromCart pf index st)) =
        take (nat index) (cart_global st) @ drop (Suc (nat index)) (cart_global st) \<and>
      localStorage (fst (removeItemFromCart pf index st)) =
        persist pf (cart_global (fst (removeItemFromCart pf index st))) (localStorage st) \<and>
      summary_totals (fst (removeItemFromCart pf index st)) =
        calculateCart pf (cart_global (fst (removeItemFromCart pf index st))))"
  by (auto simp: removeItemFromCart_def cart_remove_def splice1_valid Let_def)

theorem removeItemFromCart_spec_witness:
  "removeItemFromCart example_platform 2 example_page = (example_page, IndexOutOfRange) \<and>
   removeItemFromCart example_platform (- 1) example_page = (example_page, IndexOutOfRange) \<and>
   snd (removeItemFromCart example_platform 0 example_page) = Removed ''Alpha 7 IV'' \<and>
   cart_global (fst (removeItemFromCart example_platform 0 example_page)) = [rf50_item]"
proof -
  have len: "int (length (cart_global example_page)) = 2"
    by (simp add: example_page_def)
  have n: "name (cart_global example_page ! nat 0) = ''Alpha 7 IV''"
    by (simp add: example_page_def alpha7_item_def)
  have t: "take (nat 0) (cart_global example_page) @ drop (Suc (nat 0)) (cart_global example_page) =
      [rf50_item]"
    by (simp add: example_page_def)
  show ?thesis
    using len n t
      removeItemFromCart_spec [of 2 example_page example_platform]
      removeItemFromCart_spec [of "- 1" example_page example_platform]
      removeItemFromCart_spec [of 0 example_page example_platform]
    by simp
qed

lemma cart_add_cases:
  "fst (cart_add pf cart product) =
     (if id' product \<in> id' ` set cart then cart else cart @ [cartProduct pf product])"
  by (force simp: cart_add_def Let_def findIndex_none image_iff)

lemma distinct_cart_add:
  "distinct (map id' cart) \<Longrightarrow> distinct (map id' (fst (cart_add pf cart product)))"
  by (simp add: cart_add_cases cartProduct_def)

lemma distinct_cart_remove:
  "distinct (map id' cart) \<Longrightarrow> distinct (map id' (fst (cart_remove cart index)))"
proof (cases "index < 0 \<or> index \<ge> int (length cart)")
  case True
  assume "distinct (map id' cart)"
  with True show ?thesis by (simp add: cart_remove_def)
next
  case False
  assume d: "distinct (map id' cart)"
  from False have "fst (cart_remove cart index) =
      take (nat index) cart @ drop (Suc (nat index)) cart"
    by (simp add: cart_remove_def splice1_valid Let_def)
  then show ?thesis
    using distinct_take_drop [OF d] by simp
qed

lemma distinct_foldl_ops:
  "distinct (map id' cart) \<Longrightarrow> distinct (map id' (foldl (apply_op pf) cart ops))"
proof (induction ops arbitrary: cart)
  case Nil
  then show ?case by simp
next
  case (Cons op ops)
  have "distinct (map id' (apply_op pf cart op))"
    using Cons.prems by (cases op) (simp_all add: distinct_cart_add distinct_cart_remove)
  then show ?case
    using Cons.IH by simp
qed

text \<open>
  Claim C8. That the ids of the line items are pairwise distinct is an invariant of the
  cart: it holds of the empty cart, every add preserves it and every remove preserves it;
  so every cart reached from the empty cart by adds and removes has at most one line item
  per id.
\<close>

theorem distinct_ids_invariant:
  "distinct (map id' ([] :: CartLineItem list)) \<and>
   (distinct (map id' cart) \<longrightarrow> distinct (map id' (fst (cart_add pf cart product)))) \<and>
   (distinct (map id' cart) \<longrightarrow> distinct (map id' (fst (cart_remove cart index)))) \<and>
   distinct (map id' (run_ops pf ops))"
  by (simp add: distinct_cart_add distinct_cart_remove distinct_foldl_ops run_ops_def)

theorem distinct_ids_invariant_witness:
  "distinct (map id' [alpha7_item]) \<and>
   distinct (map id' (fst (cart_add example_platform [alpha7_item] rf50))) \<and>
   distinct (map id' (fst (cart_add example_platform [alpha7_item] alpha7))) \<and>
   distinct (map id' (fst (cart_remove [alpha7_item] 0))) \<and>
   run_ops example_platform [Add alpha7, Add rf50, Add alpha7, Remove 0, Add alpha7, Remove 5] =
     [rf50_item, alpha7_item] \<and>
   distinct (map id' [rf50_item, alpha7_item])"
proof -
  have d: "distinct (map id' [alpha7_item])" by simp
  have r: "run_ops example_platform
      [Add alpha7, Add rf50, Add alpha7, Remove 0, Add alpha7, Remove 5] =
     [rf50_item, alpha7_item]"
    by code_simp
  show ?thesis
    using d r
      distinct_ids_invariant [of "[alpha7_item]" example_platform rf50 0
        "[Add alpha7, Add rf50, Add alpha7, Remove 0, Add alpha7, Remove 5]"]
      distinct_ids_invariant [of "[alpha7_item]" example_platform alpha7 0 "[]"]
    by simp
qed

section \<open>Reading and persisting the cart\<close>

lemma loadCartFromStorage_missing:
  "getItem ls ''cart'' = None \<Longrightarrow> loadCartFromStorage pf ls = Array []"
  by (simp add: loadCartFromStorage_def)

lemma loadCartFromStorage_malformed:
  "getItem ls ''cart'' = Some s \<Longrightarrow> JSON_parse pf s = Inl e \<Longrightarrow>
   loadCartFromStorage pf ls = Array []"
  by (simp add: loadCartFromStorage_def)

lemma getCart_missing:
  "getItem ls ''cart'' = None \<Longrightarrow> JSON_parse pf ''null'' = Inr (Scalar Null) \<Longrightarrow>
   getCart pf ls = Inr (Array [])"
  by (simp add: getCart_def parse_item_def or_empty_def)

text \<open>
  Claim C4 asks that reading the cart gives an empty cart for a missing or malformed
  stored value and never throws. \<^verbatim>\<open>loadCartFromStorage\<close> does so (the two lemmas above).
  \<^verbatim>\<open>window.getCart\<close> does not: whenever \<^verbatim>\<open>JSON.parse\<close> rejects the stored text, the
  exception leaves \<^verbatim>\<open>getCart\<close>.
\<close>

theorem getCart_throws:
  "getItem ls ''cart'' = Some s \<Longrightarrow> JSON_parse pf s = Inl e \<Longrightarrow> getCart pf ls = Inl e"
  by (simp add: getCart_def parse_item_def)

text \<open>The stored text \<^verbatim>\<open>{oops\<close>: \<^verbatim>\<open>getCart\<close> throws where \<^verbatim>\<open>loadCartFromStorage\<close> gives \<^verbatim>\<open>[]\<close>.\<close>

theorem getCart_throws_witness:
  "getCart example_platform (Map.empty(''cart'' \<mapsto> ''{oops'')) = Inl SyntaxError \<and>
   loadCartFromStorage example_platform (Map.empty(''cart'' \<mapsto> ''{oops'')) = Array []"
proof -
  have g: "getItem (Map.empty(''cart'' \<mapsto> ''{oops'')) ''cart'' = Some ''{oops''"
    by (simp add: getItem_def)
  have p: "JSON_parse example_platform ''{oops'' = Inl SyntaxError"
    by code_simp
  show ?thesis
    using getCart_throws [OF g p] loadCartFromStorage_malformed [OF g p] by simp
qed

lemma those_strings: "those (map (string_of_json \<circ> JString) xs) = Some xs"
  by (induction xs) simp_all

lemma item_of_json_of_item: "item_of_json (json_of_item item) = Some (item_kept item)"
proof -
  have "item_of_json (json_of_item item) =
      Some \<lparr>id' = id' item, name = name item, brand = brand item, summary = summary item,
            price = price_kept (price item), displayPrice = displayPrice item,
            images = images item, category = category item\<rparr>"
    by (cases "summary item"; cases "displayPrice item";
        cases "price item" rule: json_of_scalar.cases)
       (simp_all add: item_of_json_def json_of_item_def property_def optional_def
          those_strings)
  then show ?thesis
    by (simp add: item_kept_def)
qed

lemma those_items:
  "those (map (item_of_json \<circ> json_of_item) cart) = Some (map item_kept cart)"
  by (induction cart) (simp_all add: item_of_json_of_item)

text \<open>
  The document of a cart is read as the cart with every price that is not a finite number
  replaced by \<^verbatim>\<open>null\<close>, and as nothing else.
\<close>

lemma jsv_of_json_of_cart: "jsv_of_json (json_of_cart cart) = Some (Array (map item_kept cart))"
  by (simp add: jsv_of_json_def json_of_cart_def those_items)




lemma getItem_persist: "getItem (persist pf cart ls) ''cart'' = Some (JSON_stringify pf cart)"
  by (simp add: persist_def getItem_def setItem_def)

lemma load_persist:
  assumes "json_at pf cart"
  shows "loadCartFromStorage pf (persist pf cart ls) = Array (map item_kept cart)"
proof -
  from assms have ne: "JSON_stringify pf cart \<noteq> []"
    and p: "JSON_parse pf (JSON_stringify pf cart) = Inr (Array (map item_kept cart))"
    by (simp_all add: json_at_def jsv_of_json_of_cart)
  then show ?thesis
    by (simp add: loadCartFromStorage_def getItem_persist)
qed


text \<open>
  Both writers persist the whole cart they hold: after a removal, and after an add, the
  storage reads back as the new cart, up to the prices that are not finite numbers.
\<close>

lemma load_after_remove:
  assumes "0 \<le> index" and "index < int (length (cart_global st))"
    and "st' = fst (removeItemFromCart pf index st)"
    and "json_at pf (cart_global st')"
  shows "loadCartFromStorage pf (localStorage st') = Array (map item_kept (cart_global st'))"
proof -
  have "localStorage st' = persist pf (cart_global st') (localStorage st)"
    using assms(1-3) by (simp add: removeItemFromCart_def cart_remove_def Let_def)
  then show ?thesis
    using assms(4) by (simp add: load_persist)
qed

lemma load_after_add:
  assumes "addToCart pf product ls = (ls', Added)"
    and "parse_item pf (getItem ls ''cart'') = Inr v" and "or_empty v = Array cart"
    and "json_at pf (cart @ [cartProduct pf product])"
  shows "loadCartFromStorage pf ls' = Array (map item_kept (cart @ [cartProduct pf product]))"
proof -
  have "ls' = persist pf (cart @ [cartProduct pf product]) ls"
    using assms(1-3)
    by (auto simp: addToCart_def cart_add_def Let_def split: if_splits)
  then show ?thesis
    using assms(4) by (simp add: load_persist)
qed




section \<open>Catalogue queries\<close>

text \<open>
  Claim C5. For every product list \<open>P\<close> and every category \<open>c\<close> other than \<^verbatim>\<open>"All"\<close>, the
  category filter returns exactly the products of \<open>P\<close> whose category equals \<open>c\<close>
  (compared as strings, case-sensitively), in their original order; for \<^verbatim>\<open>"All"\<close> it
  returns \<open>P\<close> itself.
\<close>

theorem filterByCategory_spec:
  "(c \<noteq> ''All'' \<longrightarrow>
      filterByCategory P c = filter (\<lambda>p. category p = c) P \<and>
      subseq (filterByCategory P c) P \<and>
      set (filterByCategory P c) = {p \<in> set P. category p = c}) \<and>
   filterByCategory P ''All'' = P"
  by (auto simp: filterByCategory_def)

theorem filterByCategory_spec_witness:
  "''Cameras'' \<noteq> ''All'' \<and>
   filterByCategory [alpha7, rf50, alpha7\<lparr>id' := 3\<rparr>] ''Cameras'' = [alpha7, alpha7\<lparr>id' := 3\<rparr>] \<and>
   filterByCategory [alpha7, rf50] ''cameras'' = [] \<and>
   filterByCategory [alpha7, rf50] ''All'' = [alpha7, rf50]"
proof -
  have ne: "''Cameras'' \<noteq> ''All''" "''cameras'' \<noteq> ''All''" by simp_all
  have f: "filter (\<lambda>p. category p = ''Cameras'') [alpha7, rf50, alpha7\<lparr>id' := 3\<rparr>] =
      [alpha7, alpha7\<lparr>id' := 3\<rparr>]"
    by (simp add: alpha7_def rf50_def)
  have g: "filter (\<lambda>p. category p = ''cameras'') [alpha7, rf50] = []"
    by (simp add: alpha7_def rf50_def)
  show ?thesis
    using ne f g filterByCategory_spec [of "''Cameras''" "[alpha7, rf50, alpha7\<lparr>id' := 3\<rparr>]"]
      filterByCategory_spec [of "''cameras''" "[alpha7, rf50]"]
    by simp
qed

text \<open>
  Claim C6, as the code has it. For every product list \<open>P\<close> and every query \<open>q\<close> typed
  into the search box: when \<open>q\<close> is empty or all white space the search returns \<open>P\<close>
  unchanged; otherwise it returns, in their original order, exactly the products for which
  \<open>q\<close> with its leading and trailing white space removed occurs, case-insensitively, in
  the name, the brand, the category or, when present, the summary.
\<close>

theorem handleSearch_spec:
  "handleSearch P q = (if list_all isWhiteSpace q then P else filter (matches (trim q)) P)"
proof (cases "list_all isWhiteSpace q")
  case True
  then have "trim (toLowerCase q) = []"
    by (simp add: trim_toLowerCase trim_empty toLowerCase_empty)
  with True show ?thesis
    by (simp add: handleSearch_def filterProducts_def)
next
  case False
  then have ne: "toLowerCase (trim q) \<noteq> []"
    by (simp add: trim_empty toLowerCase_empty)
  have s: "(s \<noteq> [] \<and> str_includes (toLowerCase s) (toLowerCase (trim q))) =
      str_includes (toLowerCase s) (toLowerCase (trim q))" for s
    using ne by (cases s) (auto simp: toLowerCase_def)
  have "filterProducts P (toLowerCase (trim q)) = filter (matches (trim q)) P"
    unfolding filterProducts_def using ne
    by (simp add: matches_def occurs_ci_def s cong: filter_cong option.case_cong)
  with False show ?thesis
    by (simp add: handleSearch_def trim_toLowerCase)
qed

text \<open>A query in capitals with spaces around it, and a query of spaces only.\<close>

theorem handleSearch_spec_witness:
  "handleSearch [alpha7, rf50] ''  SONY '' = [alpha7] \<and>
   handleSearch [alpha7, rf50] ''   '' = [alpha7, rf50]"
proof -
  have w: "\<not> list_all isWhiteSpace ''  SONY ''" "list_all isWhiteSpace ''   ''"
    by code_simp+
  have f: "filter (matches (trim ''  SONY '')) [alpha7, rf50] = [alpha7]"
    by code_simp
  show ?thesis
    using handleSearch_spec [of "[alpha7, rf50]" "''  SONY ''"]
      handleSearch_spec [of "[alpha7, rf50]" "''   ''"]
    by (simp only: w f if_True if_False simp_thms)
qed

text \<open>
  Claim C6 as stated fails: for the query \<^verbatim>\<open>" sony"\<close>, which is not empty and not all white
  space, the search returns the Sony product, although \<^verbatim>\<open>" sony"\<close> with its leading space
  occurs in none of the product's fields.
\<close>

theorem handleSearch_trim_counterexample:
  "handleSearch [alpha7] '' sony'' \<noteq> spec_search [alpha7] '' sony''"
  by code_simp

section \<open>The detail page\<close>

lemma find_id_None:
  "(\<forall>p \<in> set products. id' p \<noteq> i) \<Longrightarrow> find (\<lambda>p. id' p = i) products = None"
  by (simp add: find_None_iff)

text \<open>
  Claim C9, as the code has it. For every value of the \<^verbatim>\<open>id\<close> query parameter, the
  detail page ends in the not-found view (its only other outcome is a detail view: there
  is no failure) whenever the parameter is absent, has no number at its start
  (\<^verbatim>\<open>parseInt\<close> gives \<^verbatim>\<open>NaN\<close>), starts with a number that is not positive, or starts with
  a number that is the id of no product of the catalogue, and also when the catalogue
  cannot be fetched. A detail view is shown exactly when the value starts with a positive
  integer that is the id of a product, whatever follows the digits: \<^verbatim>\<open>2abc\<close> and
  \<^verbatim>\<open>2.9\<close> show the product with id 2.
\<close>

theorem detail_page_spec:
  "(query = None \<longrightarrow> detail_page fetched query = NotFound) \<and>
   (query = Some s \<and> parseInt s = None \<longrightarrow> detail_page fetched query = NotFound) \<and>
   (query = Some s \<and> parseInt s = Some i \<and> i \<le> 0 \<longrightarrow> detail_page fetched query = NotFound) \<and>
   (query = Some s \<and> parseInt s = Some i \<and> fetched = Inr products \<and>
      (\<forall>p \<in> set products. id' p \<noteq> i) \<longrightarrow> detail_page fetched query = NotFound) \<and>
   (fetched = Inl e \<longrightarrow> detail_page fetched query = NotFound) \<and>
   (query = Some s \<and> parseInt s = Some i \<and> 0 < i \<and> fetched = Inr products \<and>
      find (\<lambda>p. id' p = i) products = Some product \<longrightarrow>
      detail_page fetched query = Detail product) \<and>
   (detail_page fetched query = Detail product \<longrightarrow>
      (\<exists>s i products. query = Some s \<and> s \<noteq> [] \<and> parseInt s = Some i \<and> 0 < i \<and>
         fetched = Inr products \<and> find (\<lambda>p. id' p = i) products = Some product \<and>
         product \<in> set products \<and> id' product = i))"
proof -
  have 1: "query = None \<longrightarrow> detail_page fetched query = NotFound"
    by (simp add: detail_page_def getProductIdFromURL_def)
  have 2: "query = Some s \<and> parseInt s = None \<longrightarrow> detail_page fetched query = NotFound"
    by (simp add: detail_page_def getProductIdFromURL_def)
  have 3: "query = Some s \<and> parseInt s = Some i \<and> i \<le> 0 \<longrightarrow>
      detail_page fetched query = NotFound"
    by (simp add: detail_page_def getProductIdFromURL_def)
  have 4: "query = Some s \<and> parseInt s = Some i \<and> fetched = Inr products \<and>
      (\<forall>p \<in> set products. id' p \<noteq> i) \<longrightarrow> detail_page fetched query = NotFound"
    by (auto simp: detail_page_def getProductIdFromURL_def loadProductDetails_def find_id_None)
  have 5: "fetched = Inl e \<longrightarrow> detail_page fetched query = NotFound"
    by (simp add: detail_page_def loadProductDetails_def split: option.splits)
  have empty: "parseInt [] = None"
    by (simp add: parseInt_def)
  have 6: "query = Some s \<and> parseInt s = Some i \<and> 0 < i \<and> fetched = Inr products \<and>
      find (\<lambda>p. id' p = i) products = Some product \<longrightarrow>
      detail_page fetched query = Detail product"
    using empty
    by (auto simp: detail_page_def getProductIdFromURL_def loadProductDetails_def)
  have 7: "detail_page fetched query = Detail product \<longrightarrow>
      (\<exists>s i products. query = Some s \<and> s \<noteq> [] \<and> parseInt s = Some i \<and> 0 < i \<and>
         fetched = Inr products \<and> find (\<lambda>p. id' p = i) products = Some product \<and>
         product \<in> set products \<and> id' product = i)"
    by (auto simp: detail_page_def getProductIdFromURL_def loadProductDetails_def
          find_Some_iff in_set_conv_nth
        split: option.splits if_splits sum.splits)
  show ?thesis
    using 1 2 3 4 5 6 7 by blast
qed

theorem detail_page_spec_witness:
  "detail_page (Inr [alpha7, rf50]) None = NotFound \<and>
   detail_page (Inr [alpha7, rf50]) (Some ''abc'') = NotFound \<and>
   detail_page (Inr [alpha7, rf50]) (Some ''-2'') = NotFound \<and>
   detail_page (Inr [alpha7, rf50]) (Some ''0'') = NotFound \<and>
   detail_page (Inr [alpha7, rf50]) (Some ''7'') = NotFound \<and>
   detail_page (Inl FetchError) (Some ''2'') = NotFound \<and>
   detail_page (Inr [alpha7, rf50]) (Some ''2'') = Detail rf50 \<and>
   detail_page (Inr [alpha7, rf50]) (Some ''2.9'') = Detail rf50 \<and>
   parseInt ''2'' = Some 2 \<and> rf50 \<in> set [alpha7, rf50] \<and> id' rf50 = 2"
proof -
  have p1: "parseInt ''abc'' = None" by code_simp
  have p2: "parseInt ''-2'' = Some (- 2)" by code_simp
  have p3: "parseInt ''7'' = Some 7" by code_simp
  have p4: "parseInt ''2'' = Some 2" by code_simp
  have p5: "parseInt ''0'' = Some 0" by code_simp
  have p6: "parseInt ''2.9'' = Some 2" by code_simp
  have none: "\<forall>p \<in> set [alpha7, rf50]. id' p \<noteq> 7"
    by (simp add: alpha7_def rf50_def)
  have f: "find (\<lambda>p. id' p = 2) [alpha7, rf50] = Some rf50"
    by (simp add: alpha7_def rf50_def)
  have 1: "detail_page (Inr [alpha7, rf50]) None = NotFound"
    using detail_page_spec [where query = None and fetched = "Inr [alpha7, rf50]"]
    by blast
  have 2: "detail_page (Inr [alpha7, rf50]) (Some ''abc'') = NotFound"
    using p1 detail_page_spec [where query = "Some ''abc''" and s = "''abc''"
        and fetched = "Inr [alpha7, rf50]"]
    by blast
  have 3: "detail_page (Inr [alpha7, rf50]) (Some ''-2'') = NotFound"
    using p2 detail_page_spec [where query = "Some ''-2''" and s = "''-2''" and i = "- 2"
        and fetched = "Inr [alpha7, rf50]"]
    by force
  have 4: "detail_page (Inr [alpha7, rf50]) (Some ''0'') = NotFound"
    using p5 detail_page_spec [where query = "Some ''0''" and s = "''0''" and i = 0
        and fetched = "Inr [alpha7, rf50]"]
    by force
  have 5: "detail_page (Inr [alpha7, rf50]) (Some ''7'') = NotFound"
    using p3 none detail_page_spec [where query = "Some ''7''" and s = "''7''" and i = 7
        and fetched = "Inr [alpha7, rf50]" and products = "[alpha7, rf50]"]
    by blast
  have 6: "detail_page (Inl FetchError) (Some ''2'') = NotFound"
    using detail_page_spec [where query = "Some ''2''" and fetched = "Inl FetchError"
        and e = FetchError]
    by blast
  have 7: "detail_page (Inr [alpha7, rf50]) (Some ''2'') = Detail rf50"
    using p4 f detail_page_spec [where query = "Some ''2''" and s = "''2''" and i = 2
        and fetched = "Inr [alpha7, rf50]" and products = "[alpha7, rf50]" and product = rf50]
    by force
  have 8: "detail_page (Inr [alpha7, rf50]) (Some ''2.9'') = Detail rf50"
    using p6 f detail_page_spec [where query = "Some ''2.9''" and s = "''2.9''" and i = 2
        and fetched = "Inr [alpha7, rf50]" and products = "[alpha7, rf50]" and product = rf50]
    by force
  obtain s i products where
    e: "Some ''2'' = Some s" "parseInt s = Some i" "0 < i"
      "Inr [alpha7, rf50] = (Inr products :: js_error + Product list)"
      "rf50 \<in> set products" "id' rf50 = i"
    using 7 detail_page_spec [where query = "Some ''2''" and fetched = "Inr [alpha7, rf50]"
        and product = rf50]
    by blast
  from e p4 have 9: "rf50 \<in> set [alpha7, rf50]" "id' rf50 = 2"
    by simp_all
  show ?thesis
    using 1 2 3 4 5 6 7 8 9 p4 by blast
qed

text \<open>
  Claim C9 as stated fails: the value \<^verbatim>\<open>2abc\<close> is not numeric, yet \<^verbatim>\<open>parseInt\<close> reads the
  2 at its start and the page shows the product with id 2, not the not-found view.
\<close>

theorem detail_page_prefix_counterexample:
  "detail_page (Inr [alpha7, rf50]) (Some ''2abc'') = Detail rf50 \<and>
   spec_detail_page (Inr [alpha7, rf50]) (Some ''2abc'') = NotFound"
  by code_simp

end
